theory Spec2Isabelle
  imports Main "HOL-Library.Word"
begin

section \<open>The module builder of codegen (include/codegen/module\_builder.hpp)\<close>

text \<open>
  A shallow embedding of \<^verbatim>\<open>module_builder.hpp\<close>. Member names lose their trailing
  underscore (\<^verbatim>\<open>line_no_\<close> is \<open>line_no\<close>), which Isabelle does not accept in a name.
  The C++ type \<^verbatim>\<open>unsigned\<close> is a 32-bit word, so that \<open>+\<close> and \<open>-\<close> wrap around as they
  do in the program.
\<close>

type_synonym unsigned = "32 word"

subsection \<open>Type trait registry: \<^verbatim>\<open>detail::type<void>\<close> and \<^verbatim>\<open>detail::type<int32_t>\<close>\<close>

datatype host_type = Void | Int32

datatype llvm_type = VoidTy | Int32Ty

datatype dwarf_encoding = DW_ATE_signed

datatype di_type = DIBasicType string nat dwarf_encoding

fun type_name :: "host_type \<Rightarrow> string" where
  "type_name Void = ''void''"
| "type_name Int32 = ''i32''"

fun type_llvm :: "host_type \<Rightarrow> llvm_type" where
  "type_llvm Void = VoidTy"
| "type_llvm Int32 = Int32Ty"

text \<open>\<open>None\<close> is the null pointer that \<^verbatim>\<open>type<void>::dbg()\<close> returns.\<close>

fun type_dbg :: "host_type \<Rightarrow> di_type option" where
  "type_dbg Void = None"
| "type_dbg Int32 = Some (DIBasicType (type_name Int32) 32 DW_ATE_signed)"

subsection \<open>The backend, as far as the builder drives it\<close>

text \<open>
  The backend (LLVM's module, IR builder and debug-info builder) is an external library.
  It is modelled as a recorder: every object the builder asks for is appended to a list
  and its position in that list is the handle (the pointer) the backend hands back. An
  instruction created through the IR builder is inserted at the builder's insert point and
  carries the builder's current debug location. The backend's own checks (a duplicate
  function name, a malformed signature) are outside the model.
\<close>

datatype di_scope = DIFile nat | DISubprogram nat

datatype debug_loc = DebugLoc (loc_line: unsigned) (loc_col: unsigned) (loc_scope: di_scope)

datatype di_flag = FlagPrototyped | SPFlagDefinition | SPFlagOptimized

record di_subprogram =
  sp_scope :: di_scope
  sp_name :: string
  sp_linkage_name :: string
  sp_file :: nat
  sp_line_no :: unsigned
  sp_type :: "di_type option list"
  sp_scope_line :: unsigned
  sp_flags :: "di_flag list"
  sp_spflags :: "di_flag list"

record di_builder =
  subprograms :: "di_subprogram list"

datatype linkage = ExternalLinkage

record llvm_function =
  fn_name :: string
  fn_linkage :: linkage
  fn_return_type :: llvm_type
  fn_param_types :: "llvm_type list"
  fn_arg_names :: "string list"
  fn_subprogram :: "di_scope option"
  fn_blocks :: "string list"

datatype llvm_value = Argument nat nat

datatype opcode = Ret llvm_value

record instruction =
  instr_op :: opcode
  instr_parent :: "(nat \<times> nat) option"
  instr_dbg :: "debug_loc option"

record llvm_module =
  module_functions :: "llvm_function list"
  module_instructions :: "instruction list"

record ir_builder =
  current_debug_location :: "debug_loc option"
  insert_point :: "(nat \<times> nat) option"

definition Function_Create ::
  "llvm_type \<Rightarrow> llvm_type list \<Rightarrow> linkage \<Rightarrow> string \<Rightarrow> llvm_module \<Rightarrow> nat \<times> llvm_module" where
  "Function_Create ret params l n m =
     (length (module_functions m),
      m\<lparr>module_functions := module_functions m @
           [\<lparr>fn_name = n, fn_linkage = l, fn_return_type = ret, fn_param_types = params,
             fn_arg_names = replicate (length params) [], fn_subprogram = None,
             fn_blocks = []\<rparr>]\<rparr>)"

definition createFunction ::
  "di_scope \<Rightarrow> string \<Rightarrow> string \<Rightarrow> nat \<Rightarrow> unsigned \<Rightarrow> di_type option list \<Rightarrow> unsigned \<Rightarrow>
   di_flag list \<Rightarrow> di_flag list \<Rightarrow> di_builder \<Rightarrow> di_scope \<times> di_builder" where
  "createFunction sc n ln f line ty scope_line fl spfl d =
     (DISubprogram (length (subprograms d)),
      d\<lparr>subprograms := subprograms d @
           [\<lparr>sp_scope = sc, sp_name = n, sp_linkage_name = ln, sp_file = f, sp_line_no = line,
             sp_type = ty, sp_scope_line = scope_line, sp_flags = fl, sp_spflags = spfl\<rparr>]\<rparr>)"

definition setSubprogram :: "nat \<Rightarrow> di_scope \<Rightarrow> llvm_module \<Rightarrow> llvm_module" where
  "setSubprogram fn sp m =
     m\<lparr>module_functions := (module_functions m)[fn := (module_functions m ! fn)\<lparr>fn_subprogram := Some sp\<rparr>]\<rparr>"

definition setName :: "nat \<Rightarrow> nat \<Rightarrow> string \<Rightarrow> llvm_module \<Rightarrow> llvm_module" where
  "setName fn idx n m =
     m\<lparr>module_functions := (module_functions m)
          [fn := (module_functions m ! fn)\<lparr>fn_arg_names := (fn_arg_names (module_functions m ! fn))[idx := n]\<rparr>]\<rparr>"

definition BasicBlock_Create :: "string \<Rightarrow> nat \<Rightarrow> llvm_module \<Rightarrow> (nat \<times> nat) \<times> llvm_module" where
  "BasicBlock_Create n fn m =
     ((fn, length (fn_blocks (module_functions m ! fn))),
      m\<lparr>module_functions := (module_functions m)
           [fn := (module_functions m ! fn)\<lparr>fn_blocks := fn_blocks (module_functions m ! fn) @ [n]\<rparr>]\<rparr>)"

definition SetCurrentDebugLocation :: "debug_loc option \<Rightarrow> ir_builder \<Rightarrow> ir_builder" where
  "SetCurrentDebugLocation l b = b\<lparr>current_debug_location := l\<rparr>"

definition SetInsertPoint :: "nat \<times> nat \<Rightarrow> ir_builder \<Rightarrow> ir_builder" where
  "SetInsertPoint blk b = b\<lparr>insert_point := Some blk\<rparr>"

definition CreateRet :: "llvm_value \<Rightarrow> ir_builder \<Rightarrow> llvm_module \<Rightarrow> llvm_module" where
  "CreateRet v b m =
     m\<lparr>module_instructions := module_instructions m @
          [\<lparr>instr_op = Ret v, instr_parent = insert_point b,
            instr_dbg = current_debug_location b\<rparr>]\<rparr>"

subsection \<open>\<^verbatim>\<open>module_builder::source_code_generator\<close>\<close>

record source_code_generator =
  source_code :: string
  line_no :: unsigned
  indent :: unsigned

text \<open>The default member initialisers: an empty stream, \<^verbatim>\<open>line_no_ = 1\<close>, \<^verbatim>\<open>indent_ = 0\<close>.\<close>

definition source_code_generator_init :: source_code_generator where
  "source_code_generator_init = \<lparr>source_code = [], line_no = 1, indent = 0\<rparr>"

text \<open>
  Modelled from the spec: the body of \<^verbatim>\<open>source_code_generator::add_line\<close>, which the header
  only declares. The spec: it appends the text, prefixed by the current indentation, as a
  new line; returns the 1-based line number just assigned; increments the counter. The
  counter and the indentation have the header's type \<^verbatim>\<open>unsigned\<close>.
\<close>

definition add_line :: "string \<Rightarrow> source_code_generator \<Rightarrow> unsigned \<times> source_code_generator" where
  "add_line line g =
     (line_no g,
      g\<lparr>source_code := source_code g @ replicate (unat (indent g)) CHR '' '' @ line @ ''\<newline>'',
        line_no := line_no g + 1\<rparr>)"

definition enter_scope :: "source_code_generator \<Rightarrow> source_code_generator" where
  "enter_scope g = g\<lparr>indent := indent g + 4\<rparr>"

definition leave_scope :: "source_code_generator \<Rightarrow> source_code_generator" where
  "leave_scope g = g\<lparr>indent := indent g - 4\<rparr>"

definition current_line :: "source_code_generator \<Rightarrow> unsigned" where
  "current_line g = line_no g"

text \<open>
  Modelled from the spec: the body of \<^verbatim>\<open>source_code_generator::get\<close>, which the header only
  declares. The spec: it returns the full accumulated listing text.
\<close>

definition get :: "source_code_generator \<Rightarrow> string" where
  "get g = source_code g"

subsection \<open>\<^verbatim>\<open>module_builder\<close>, \<^verbatim>\<open>value\<close>, \<^verbatim>\<open>function_ref\<close> and the thread's context\<close>

text \<open>
  The members of \<^verbatim>\<open>module_builder\<close> that the functions below read or write. The members
  \<^verbatim>\<open>compiler_\<close>, \<^verbatim>\<open>context_\<close> and \<^verbatim>\<open>source_file_\<close> are only handed to the backend and are left
  out. \<open>value_t\<close> is \<^verbatim>\<open>value<Type>\<close> with its members \<^verbatim>\<open>value_\<close> and \<^verbatim>\<open>name_\<close>; the type
  parameter is static and has no run-time content.
\<close>

record module_builder =
  module :: llvm_module
  ir_builder :: ir_builder
  source_code :: source_code_generator
  dbg_builder :: di_builder
  dbg_file :: nat
  dbg_scope :: di_scope

record value_t =
  v_value :: llvm_value
  v_name :: string

datatype function_ref = Function_ref (fr_name: string) (fr_function: nat)

text \<open>
  Builders are objects with an identity: \<^verbatim>\<open>detail::current_builder\<close> is a pointer to one
  of them (\<open>None\<close> is the null pointer) and \<^verbatim>\<open>create_function\<close> compares it with \<^verbatim>\<open>this\<close>.
  The world of one thread is that pointer and the store of the builders.
\<close>

type_synonym builder_ptr = nat

record world =
  current_builder :: "builder_ptr option"
  builders :: "builder_ptr \<Rightarrow> module_builder"

text \<open>
  What can stop a construction: the \<^verbatim>\<open>assert\<close> of \<^verbatim>\<open>create_function\<close> (as compiled without
  \<^verbatim>\<open>NDEBUG\<close>, where a failed assertion aborts), a dereference of a null \<^verbatim>\<open>current_builder\<close>,
  and an exception thrown by the body callback. After an abort there is no world. An
  exception carries the world in which it was thrown: between the callback and the caller
  of \<^verbatim>\<open>create_function\<close> there is no handler and no destructor that writes to a builder or
  to \<^verbatim>\<open>current_builder\<close>, so that world is the one the caller finds when the exception
  reaches it.
\<close>

datatype error =
    AssertionFailed
  | NullDereference
  | is_BodyException: BodyException (message: string) (thrown_in: world)

text \<open>
  A body callback receives the parameter values and works on the world through
  \<^verbatim>\<open>current_builder\<close>; its C++ result is discarded.
\<close>

type_synonym body = "value_t list \<Rightarrow> world \<Rightarrow> error + world"

definition detail_eval :: "value_t \<Rightarrow> llvm_value" where
  "detail_eval v = v_value v"

text \<open>\<^verbatim>\<open>std::to_string\<close> of a \<^verbatim>\<open>size_t\<close>: the decimal digits.\<close>

fun to_string :: "nat \<Rightarrow> string" where
  "to_string n =
     (if n < 10 then [''0123456789'' ! n]
      else to_string (n div 10) @ [''0123456789'' ! (n mod 10)])"

declare to_string.simps [simp del]

subsection \<open>\<^verbatim>\<open>return_(Value v)\<close>\<close>

text \<open>The valued overload of \<^verbatim>\<open>return_\<close>, here \<open>return_v\<close>.\<close>

definition return_v :: "value_t \<Rightarrow> world \<Rightarrow> error + world" where
  "return_v v w =
     (case current_builder w of
        None \<Rightarrow> Inl NullDereference
      | Some p \<Rightarrow>
          (let mb = builders w p;
               r = add_line (''return '' @ v_name v @ '';'') (source_code mb);
               line_no' = fst r;
               mb1 = mb\<lparr>source_code := snd r\<rparr>;
               mb2 = mb1\<lparr>ir_builder :=
                       SetCurrentDebugLocation (Some (DebugLoc line_no' 1 (dbg_scope mb1)))
                         (ir_builder mb1)\<rparr>;
               mb3 = mb2\<lparr>module := CreateRet (detail_eval v) (ir_builder mb2) (module mb2)\<rparr>
           in Inr (w\<lparr>builders := (builders w)(p := mb3)\<rparr>)))"

subsection \<open>\<^verbatim>\<open>detail::function_builder<ReturnType(Arguments...)>\<close>\<close>

definition prepare_argument :: "nat \<Rightarrow> nat \<Rightarrow> llvm_module \<Rightarrow> llvm_module" where
  "prepare_argument args idx m = setName args idx (''arg'' @ to_string idx) m"

text \<open>
  The text that \<^verbatim>\<open>call_builder\<close> streams into \<^verbatim>\<open>str\<close>: the fold over the argument pack
  appends \<^verbatim>\<open>", "\<close> after every argument but the last.
\<close>

definition call_builder_str :: "host_type \<Rightarrow> host_type list \<Rightarrow> string \<Rightarrow> string" where
  "call_builder_str R As n =
     type_name R @ '' '' @ n @ ''('' @
     concat (map (\<lambda>Idx. type_name (As ! Idx) @ '' arg'' @ to_string Idx @
                          (if Idx + 1 = length As then '''' else '', ''))
                 [0..<length As]) @
     '') {''"

definition call_builder ::
  "host_type \<Rightarrow> host_type list \<Rightarrow> string \<Rightarrow> body \<Rightarrow> nat \<Rightarrow> world \<Rightarrow> error + world" where
  "call_builder R As n fb args w =
     (case current_builder w of
        None \<Rightarrow> Inl NullDereference
      | Some p \<Rightarrow>
          (let mb = builders w p;
               mb1 = mb\<lparr>source_code := snd (add_line (call_builder_str R As n) (source_code mb))\<rparr>;
               mb2 = mb1\<lparr>source_code := enter_scope (source_code mb1)\<rparr>;
               mb3 = mb2\<lparr>module := foldl (\<lambda>m Idx. prepare_argument args Idx m) (module mb2)
                                       [0..<length As]\<rparr>
           in case fb (map (\<lambda>Idx. \<lparr>v_value = Argument args Idx, v_name = ''arg'' @ to_string Idx\<rparr>)
                           [0..<length As])
                      (w\<lparr>builders := (builders w)(p := mb3)\<rparr>) of
                Inl e \<Rightarrow> Inl e
              | Inr w' \<Rightarrow>
                  (let mb4 = builders w' p;
                       mb5 = mb4\<lparr>source_code := leave_scope (source_code mb4)\<rparr>;
                       mb6 = mb5\<lparr>source_code := snd (add_line ''}'' (source_code mb5))\<rparr>
                   in Inr (w'\<lparr>builders := (builders w')(p := mb6)\<rparr>))))"

text \<open>
  \<^verbatim>\<open>function_builder::operator()\<close>. The reference \<^verbatim>\<open>mb\<close> is bound once, to the builder that
  \<^verbatim>\<open>current_builder\<close> points to on entry; the writes after the callback go to that builder
  in the world the callback returned. The subroutine type is kept as the list of the debug
  types it is made from.
\<close>

definition function_builder_call ::
  "host_type \<Rightarrow> host_type list \<Rightarrow> string \<Rightarrow> body \<Rightarrow> world \<Rightarrow> error + (function_ref \<times> world)" where
  "function_builder_call R As n fb w =
     (case current_builder w of
        None \<Rightarrow> Inl NullDereference
      | Some p \<Rightarrow>
          (let mb = builders w p;
               c = Function_Create (type_llvm R) (map type_llvm As) ExternalLinkage n (module mb);
               fn = fst c;
               mb1 = mb\<lparr>module := snd c\<rparr>;
               dbg_types = type_dbg R # map type_dbg As;
               dbg_fn_type = dbg_types;
               s = createFunction (dbg_scope mb1) n n (dbg_file mb1)
                     (current_line (source_code mb1)) dbg_fn_type
                     (current_line (source_code mb1)) [FlagPrototyped]
                     [SPFlagDefinition, SPFlagOptimized] (dbg_builder mb1);
               dbg_fn_scope = fst s;
               mb2 = mb1\<lparr>dbg_builder := snd s\<rparr>;
               parent_scope = dbg_scope mb2;
               mb3 = mb2\<lparr>dbg_scope := dbg_fn_scope\<rparr>;
               mb4 = mb3\<lparr>module := setSubprogram fn dbg_fn_scope (module mb3)\<rparr>;
               mb5 = mb4\<lparr>ir_builder := SetCurrentDebugLocation None (ir_builder mb4)\<rparr>;
               b = BasicBlock_Create ''entry'' fn (module mb5);
               block = fst b;
               mb6 = mb5\<lparr>module := snd b\<rparr>;
               mb7 = mb6\<lparr>ir_builder := SetInsertPoint block (ir_builder mb6)\<rparr>
           in case call_builder R As n fb fn (w\<lparr>builders := (builders w)(p := mb7)\<rparr>) of
                Inl e \<Rightarrow> Inl e
              | Inr w' \<Rightarrow>
                  Inr (Function_ref n fn,
                       w'\<lparr>builders := (builders w')(p := (builders w' p)\<lparr>dbg_scope := parent_scope\<rparr>)\<rparr>)))"

subsection \<open>\<^verbatim>\<open>module_builder::create_function\<close>\<close>

definition create_function ::
  "builder_ptr \<Rightarrow> host_type \<Rightarrow> host_type list \<Rightarrow> string \<Rightarrow> body \<Rightarrow> world \<Rightarrow>
   error + (function_ref \<times> world)" where
  "create_function this R As n fb w =
     (if current_builder w = Some this \<or> current_builder w = None then
        (let prev_builder = current_builder w
         in case function_builder_call R As n fb (w\<lparr>current_builder := Some this\<rparr>) of
              Inl e \<Rightarrow> Inl e
            | Inr (fn_ref, w') \<Rightarrow> Inr (fn_ref, w'\<lparr>current_builder := prev_builder\<rparr>))
      else Inl AssertionFailed)"

subsection \<open>A builder on which nothing has been constructed\<close>

text \<open>
  Modelled from the spec: the constructor \<^verbatim>\<open>module_builder(compiler&, name)\<close>, which the
  header only declares. The spec: the builder is created with a module name and owns a
  backend module container, an IR insertion cursor, a debug-info builder, a debug file
  descriptor, a debug scope and the source generator. Before the first construction the
  module and the debug-info builder hold nothing, the cursor has no position, the
  generator is as its member initialisers leave it, and the debug scope is the file.
\<close>

definition fresh_builder :: module_builder where
  "fresh_builder =
     \<lparr>module = \<lparr>module_functions = [], module_instructions = []\<rparr>,
      ir_builder = \<lparr>current_debug_location = None, insert_point = None\<rparr>,
      source_code = source_code_generator_init,
      dbg_builder = \<lparr>subprograms = []\<rparr>,
      dbg_file = 0,
      dbg_scope = DIFile 0\<rparr>"

text \<open>A thread with no active context, all of whose builders are fresh.\<close>

definition fresh_world :: world where
  "fresh_world = \<lparr>current_builder = None, builders = (\<lambda>p. fresh_builder)\<rparr>"

text \<open>A body callback that throws at once, in the world it is called in.\<close>

definition throwing_body :: body where
  "throwing_body args w = Inl (BodyException ''boom'' w)"

subsection \<open>The declaration line as the specification words it\<close>

text \<open>
  The specification's form of the declaration line: the return type's name, the function
  name, and in parentheses the arguments \<open>name(A\<^sub>i) arg\<^sub>i\<close> joined by \<^verbatim>\<open>", "\<close>, then \<^verbatim>\<open>" {"\<close>.
  It is compared below with \<open>call_builder_str\<close>, which follows the code.
\<close>

fun join_with :: "string \<Rightarrow> string list \<Rightarrow> string" where
  "join_with sep [] = []"
| "join_with sep [x] = x"
| "join_with sep (x # y # ys) = x @ sep @ join_with sep (y # ys)"

definition declaration_line :: "host_type \<Rightarrow> string \<Rightarrow> host_type list \<Rightarrow> string" where
  "declaration_line R f As =
     type_name R @ '' '' @ f @ ''('' @
     join_with '', '' (map (\<lambda>i. type_name (As ! i) @ '' arg'' @ to_string i) [0..<length As]) @
     '') {''"

subsection \<open>Sequences of calls on one source code generator\<close>

text \<open>
  A client of one generator is a sequence of calls of its three mutating members.
  \<open>run\<close> performs them in order, \<open>returned\<close> collects what the \<^verbatim>\<open>add_line\<close> calls return.
\<close>

datatype generator_call = Add_line string | Enter_scope | Leave_scope

fun call :: "generator_call \<Rightarrow> source_code_generator \<Rightarrow> source_code_generator" where
  "call (Add_line t) g = snd (add_line t g)"
| "call Enter_scope g = enter_scope g"
| "call Leave_scope g = leave_scope g"

fun run :: "generator_call list \<Rightarrow> source_code_generator \<Rightarrow> source_code_generator" where
  "run [] g = g"
| "run (c # cs) g = run cs (call c g)"

fun returned :: "generator_call list \<Rightarrow> source_code_generator \<Rightarrow> unsigned list" where
  "returned [] g = []"
| "returned (Add_line t # cs) g = fst (add_line t g) # returned cs (call (Add_line t) g)"
| "returned (Enter_scope # cs) g = returned cs (call Enter_scope g)"
| "returned (Leave_scope # cs) g = returned cs (call Leave_scope g)"

text \<open>The net number of open scopes after a sequence: enters minus leaves.\<close>

fun net_open :: "generator_call list \<Rightarrow> int" where
  "net_open [] = 0"
| "net_open (Enter_scope # cs) = net_open cs + 1"
| "net_open (Leave_scope # cs) = net_open cs - 1"
| "net_open (Add_line t # cs) = net_open cs"

text \<open>
  A sequence is balanced, from \<open>d\<close> scopes already open, when no \<^verbatim>\<open>leave_scope\<close> comes
  without an open scope and no scope stays open at the end. \<open>max_open\<close> is the deepest
  nesting the sequence reaches.
\<close>

fun balanced :: "nat \<Rightarrow> generator_call list \<Rightarrow> bool" where
  "balanced d [] = (d = 0)"
| "balanced d (Enter_scope # cs) = balanced (Suc d) cs"
| "balanced d (Leave_scope # cs) = (0 < d \<and> balanced (d - 1) cs)"
| "balanced d (Add_line t # cs) = balanced d cs"

fun max_open :: "nat \<Rightarrow> generator_call list \<Rightarrow> nat" where
  "max_open d [] = d"
| "max_open d (Enter_scope # cs) = max d (max_open (Suc d) cs)"
| "max_open d (Leave_scope # cs) = max d (max_open (d - 1) cs)"
| "max_open d (Add_line t # cs) = max_open d cs"

section \<open>Properties\<close>

subsection \<open>Evaluation of concrete runs\<close>

lemma replicate_4: "replicate 4 x = [x, x, x, x]"
  by (simp add: eval_nat_numeral)

lemmas run_defs = create_function_def function_builder_call_def call_builder_def Let_def
  Function_Create_def createFunction_def return_v_def fresh_world_def fresh_builder_def
  source_code_generator_init_def add_line_def enter_scope_def leave_scope_def current_line_def
  throwing_body_def get_def setSubprogram_def BasicBlock_Create_def SetCurrentDebugLocation_def SetInsertPoint_def
  prepare_argument_def setName_def CreateRet_def detail_eval_def call_builder_str_def
  to_string.simps upt_rec replicate_4

subsection \<open>What naming the arguments leaves alone\<close>

lemma foldl_prepare_argument_subprogram:
  "fn_subprogram (module_functions (foldl (\<lambda>m Idx. prepare_argument a Idx m) m xs) ! k) =
   fn_subprogram (module_functions m ! k)"
proof (induction xs arbitrary: m)
  case Nil
  show ?case by simp
next
  case (Cons x xs)
  have "fn_subprogram (module_functions (prepare_argument a x m) ! k) =
        fn_subprogram (module_functions m ! k)"
    by (cases "a < length (module_functions m)"; cases "k = a")
       (simp_all add: prepare_argument_def setName_def list_update_beyond)
  with Cons show ?case by simp
qed

subsection \<open>The shape of a completed \<^verbatim>\<open>create_function\<close>\<close>

text \<open>
  A call of \<open>create_function\<close> that returns has passed the assertion, has run the body
  callback once, on a world \<open>w1\<close> that the prologue prepared, and has finished from the
  world \<open>w2\<close> that the callback returned.
\<close>

lemma create_function_cases:
  assumes "create_function this R As n fb w = Inr (r, w')"
  obtains w1 w2 where
    "fb (map (\<lambda>Idx. \<lparr>v_value = Argument (length (module_functions (module (builders w this)))) Idx,
                       v_name = ''arg'' @ to_string Idx\<rparr>) [0..<length As]) w1 = Inr w2"
    "current_builder w = None \<or> current_builder w = Some this"
    "current_builder w1 = Some this"
    "source_code (builders w1 this) =
       enter_scope (snd (add_line (call_builder_str R As n) (source_code (builders w this))))"
    "dbg_scope (builders w1 this) = DISubprogram (length (subprograms (dbg_builder (builders w this))))"
    "subprograms (dbg_builder (builders w1 this)) =
       subprograms (dbg_builder (builders w this)) @
       [\<lparr>sp_scope = dbg_scope (builders w this), sp_name = n, sp_linkage_name = n,
         sp_file = dbg_file (builders w this),
         sp_line_no = current_line (source_code (builders w this)),
         sp_type = type_dbg R # map type_dbg As,
         sp_scope_line = current_line (source_code (builders w this)),
         sp_flags = [FlagPrototyped], sp_spflags = [SPFlagDefinition, SPFlagOptimized]\<rparr>]"
    "fn_subprogram (module_functions (module (builders w1 this)) !
        length (module_functions (module (builders w this)))) =
       Some (DISubprogram (length (subprograms (dbg_builder (builders w this)))))"
    "current_debug_location (ir_builder (builders w1 this)) = None"
    "source_code (builders w' this) = snd (add_line ''}'' (leave_scope (source_code (builders w2 this))))"
    "dbg_scope (builders w' this) = dbg_scope (builders w this)"
    "current_builder w' = current_builder w"
    "r = Function_ref n (length (module_functions (module (builders w this))))"
proof -
  from assms have g: "current_builder w = None \<or> current_builder w = Some this"
    by (auto simp: create_function_def split: if_splits)
  note shape = that
  from assms g show thesis
    apply (simp add: create_function_def function_builder_call_def call_builder_def Let_def
        Function_Create_def createFunction_def
        del: append.simps split: if_splits sum.splits prod.splits)
    apply (erule shape)
    apply (auto simp add: setSubprogram_def
        BasicBlock_Create_def SetCurrentDebugLocation_def SetInsertPoint_def
        foldl_prepare_argument_subprogram)
    done
qed

text \<open>
  In the other direction: when the assertion holds and the callback returns on every
  world, the construction returns.
\<close>

lemma call_builder_returns:
  assumes "current_builder v = Some this"
    and "\<forall>args w1. \<exists>w2. fb args w1 = Inr w2"
  shows "\<exists>w2. call_builder R As n fb a v = Inr w2"
proof -
  let ?args = "map (\<lambda>Idx. \<lparr>v_value = Argument a Idx, v_name = ''arg'' @ to_string Idx\<rparr>) [0..<length As]"
  have "\<And>w1 e. fb ?args w1 \<noteq> Inl e"
    using assms(2) by (metis sum.distinct(1))
  with assms(1) show ?thesis
    by (simp add: call_builder_def Let_def del: append.simps split: sum.splits)
qed

lemma create_function_returns:
  assumes "current_builder w = None \<or> current_builder w = Some this"
    and "\<forall>args w1. \<exists>w2. fb args w1 = Inr w2"
  shows "\<exists>r w'. create_function this R As n fb w = Inr (r, w')"
proof -
  have cb: "\<exists>w2. call_builder R As n fb a v = Inr w2" if "current_builder v = Some this" for a v
    using that assms(2) by (rule call_builder_returns)
  have nfail: "call_builder R As n fb a v \<noteq> Inl e" if "current_builder v = Some this" for a v e
    using cb [OF that, of a] by auto
  have "\<exists>r w'. function_builder_call R As n fb (w\<lparr>current_builder := Some this\<rparr>) = Inr (r, w')"
    by (simp add: function_builder_call_def Let_def nfail del: append.simps split: sum.splits)
  with assms(1) show ?thesis
    by (auto simp add: create_function_def)
qed

subsection \<open>The declaration line: the code against the specification\<close>

lemma concat_sep:
  "concat (map (\<lambda>i. xs ! i @ (if i + 1 = length xs then [] else sep)) [0..<length xs]) =
   join_with sep xs"
proof (induction sep xs rule: join_with.induct)
  case (3 sep x y ys)
  have "[0..<length (x # y # ys)] = 0 # map Suc [0..<length (y # ys)]"
    by (simp add: upt_conv_Cons map_Suc_upt del: upt_Suc)
  then show ?case using 3 by (simp add: comp_def del: upt_Suc)
qed simp_all

lemma call_builder_str_eq: "call_builder_str R As n = declaration_line R n As"
proof -
  let ?xs = "map (\<lambda>i. type_name (As ! i) @ '' arg'' @ to_string i) [0..<length As]"
  have "concat (map (\<lambda>Idx. type_name (As ! Idx) @ '' arg'' @ to_string Idx @
                          (if Idx + 1 = length As then '''' else '', ''))
                 [0..<length As]) =
        concat (map (\<lambda>i. ?xs ! i @ (if i + 1 = length ?xs then [] else '', '')) [0..<length ?xs])"
    by (rule arg_cong [where f = concat]) (simp del: upt_Suc)
  then show ?thesis
    by (simp only: call_builder_str_def declaration_line_def concat_sep)
qed

subsection \<open>Sequences of generator calls\<close>

lemma run_append: "run (xs @ ys) g = run ys (run xs g)"
  by (induction xs arbitrary: g) simp_all

lemma indent_call: "indent (call c g) = indent g + 4 * of_int (net_open [c])"
  by (cases c) (simp_all add: add_line_def enter_scope_def leave_scope_def)

lemma net_open_append: "net_open (xs @ ys) = net_open xs + net_open ys"
  by (induction xs rule: net_open.induct) simp_all

lemma indent_run: "indent (run cs g) = indent g + 4 * of_int (net_open cs)"
proof (induction cs arbitrary: g)
  case (Cons c cs)
  have "net_open (c # cs) = net_open [c] + net_open cs"
    using net_open_append [of "[c]" cs] by simp
  then show ?case by (simp add: Cons indent_call algebra_simps)
qed simp

lemma balanced_prefix:
  "balanced d (pre @ post) \<Longrightarrow> 0 \<le> int d + net_open pre \<and> balanced (nat (int d + net_open pre)) post"
proof (induction d pre rule: balanced.induct)
  case (3 d cs)
  then have "0 < d" and "balanced (d - 1) (cs @ post)" by simp_all
  with 3 have ih: "0 \<le> int (d - 1) + net_open cs \<and> balanced (nat (int (d - 1) + net_open cs)) post"
    by simp
  have eq: "int (d - 1) + net_open cs = int d + net_open (Leave_scope # cs)"
    using \<open>0 < d\<close> by simp
  show ?case using ih unfolding eq .
next
  case (2 d cs)
  then have ih: "0 \<le> int (Suc d) + net_open cs \<and> balanced (nat (int (Suc d) + net_open cs)) post"
    by simp
  have eq: "int (Suc d) + net_open cs = int d + net_open (Enter_scope # cs)" by simp
  show ?case using ih unfolding eq .
qed simp_all

lemma max_open_ge: "d \<le> max_open d cs"
  by (induction d cs rule: max_open.induct) auto

lemma max_open_prefix:
  "balanced d (pre @ post) \<Longrightarrow> int d + net_open pre \<le> int (max_open d (pre @ post))"
proof (induction d pre rule: balanced.induct)
  case (1 d)
  show ?case using max_open_ge [of d post] by simp
next
  case (2 d cs)
  then have "int (Suc d) + net_open cs \<le> int (max_open (Suc d) (cs @ post))" by simp
  then show ?case by simp
next
  case (3 d cs)
  then have "0 < d" and "int (d - 1) + net_open cs \<le> int (max_open (d - 1) (cs @ post))" by simp_all
  then show ?case by simp
next
  case (4 d t cs)
  then show ?case by simp
qed

lemma unat_indent:
  assumes "0 \<le> n" "n < 2 ^ 30"
  shows "int (unat (4 * word_of_int n :: 32 word)) = 4 * n"
proof -
  have "uint (word_of_int n :: 32 word) = n"
    using assms by (simp add: uint_word_of_int take_bit_int_eq_self)
  then have "uint (4 * word_of_int n :: 32 word) = (4 * n) mod 2 ^ 32"
    by (simp add: uint_word_ariths)
  also have "\<dots> = 4 * n"
    using assms by simp
  finally show ?thesis by simp
qed

lemma balanced_indent:
  assumes "balanced 0 (p @ q)" and "max_open 0 (p @ q) < 2 ^ 30"
  shows "0 \<le> net_open p \<and> int (unat (indent (run p source_code_generator_init))) = 4 * net_open p"
proof
  from balanced_prefix [OF assms(1)] show n0: "0 \<le> net_open p" by simp
  from max_open_prefix [OF assms(1)] assms(2) have "net_open p < 2 ^ 30" by simp
  with n0 have "int (unat (4 * word_of_int (net_open p) :: 32 word)) = 4 * net_open p"
    by (rule unat_indent)
  moreover have "indent (run p source_code_generator_init) = 4 * word_of_int (net_open p)"
    by (simp add: indent_run source_code_generator_init_def)
  ultimately show "int (unat (indent (run p source_code_generator_init))) = 4 * net_open p"
    by (simp only:)
qed

lemma returned_nth:
  "j < length (returned cs g) \<Longrightarrow> returned cs g ! j = line_no g + of_nat j"
proof (induction cs g arbitrary: j rule: returned.induct)
  case (2 t cs g)
  show ?case
  proof (cases j)
    case 0
    then show ?thesis by (simp add: add_line_def)
  next
    case (Suc i)
    with 2 show ?thesis by (simp add: add_line_def)
  qed
qed (simp_all add: enter_scope_def leave_scope_def)

lemma length_returned_replicate: "length (returned (replicate n (Add_line t)) g) = n"
  by (induction n arbitrary: g) simp_all

lemma run_replicate_enter:
  "run (replicate n Enter_scope) g = g\<lparr>indent := indent g + 4 * of_nat n\<rparr>"
  by (induction n arbitrary: g) (simp_all add: enter_scope_def algebra_simps)

lemma balanced_replicate_enter: "balanced d (replicate n Enter_scope @ cs) = balanced (d + n) cs"
  by (induction n arbitrary: d) simp_all

lemma balanced_replicate_leave: "balanced (d + n) (replicate n Leave_scope) = (d = 0)"
  by (induction n arbitrary: d) simp_all

lemma net_open_replicate_enter: "net_open (replicate n Enter_scope) = int n"
  by (induction n) simp_all

section \<open>The claims\<close>

text \<open>
  C1. The end-to-end scenario. On a fresh builder, constructing the function with return
  type \<^verbatim>\<open>i32\<close>, two \<^verbatim>\<open>i32\<close> arguments and name \<^verbatim>\<open>add\<close>, whose body emits a valued return of
  its first parameter, returns; the listing is exactly the three lines of the scenario,
  the function carries the one debug subprogram, whose line is 1, and the one
  instruction emitted is the return of the first argument, with debug location line 2,
  column 1, in the scope of that subprogram.
\<close>

theorem add_scenario:
  "\<exists>r w'. create_function 0 Int32 [Int32, Int32] ''add'' (\<lambda>args. return_v (args ! 0)) fresh_world =
             Inr (r, w') \<and>
     get (source_code (builders w' 0)) =
       ''i32 add(i32 arg0, i32 arg1) {\<newline>    return arg0;\<newline>}\<newline>'' \<and>
     fn_subprogram (module_functions (module (builders w' 0)) ! fr_function r) = Some (DISubprogram 0) \<and>
     map sp_line_no (subprograms (dbg_builder (builders w' 0))) = [1] \<and>
     module_instructions (module (builders w' 0)) =
       [\<lparr>instr_op = Ret (Argument 0 0), instr_parent = Some (0, 0),
         instr_dbg = Some (DebugLoc 2 1 (DISubprogram 0))\<rparr>]"
  by (simp add: run_defs)

text \<open>
  C2. For every function constructed through \<open>create_function\<close>, the line recorded in the
  function's debug subprogram (and its scope line) is the generator's current line at the
  moment the subprogram is created, and the declaration line is what is appended next: the
  generator the body callback starts from is the generator of that moment after one
  \<^verbatim>\<open>add_line\<close> of the declaration and one \<^verbatim>\<open>enter_scope\<close>, with nothing appended before the
  declaration. The value that \<^verbatim>\<open>add_line\<close> call returns is the subprogram's line; the
  listing has grown by the declaration line alone and the counter stands one past the
  subprogram's line. The subprogram is the one attached to the new function, in the
  module's debug file, flagged as a definition and optimised.
\<close>

theorem subprogram_line_is_declaration_line:
  assumes "create_function this R As n fb w = Inr (r, w')"
  shows "\<exists>w1 w2 sp.
     fb (map (\<lambda>Idx. \<lparr>v_value = Argument (length (module_functions (module (builders w this)))) Idx,
                        v_name = ''arg'' @ to_string Idx\<rparr>) [0..<length As]) w1 = Inr w2 \<and>
     subprograms (dbg_builder (builders w1 this)) = subprograms (dbg_builder (builders w this)) @ [sp] \<and>
     fn_subprogram (module_functions (module (builders w1 this)) ! fr_function r) =
       Some (DISubprogram (length (subprograms (dbg_builder (builders w this))))) \<and>
     sp_spflags sp = [SPFlagDefinition, SPFlagOptimized] \<and>
     sp_file sp = dbg_file (builders w this) \<and>
     sp_line_no sp = current_line (source_code (builders w this)) \<and>
     sp_scope_line sp = current_line (source_code (builders w this)) \<and>
     source_code (builders w1 this) =
       enter_scope (snd (add_line (call_builder_str R As n) (source_code (builders w this)))) \<and>
     sp_line_no sp = fst (add_line (call_builder_str R As n) (source_code (builders w this))) \<and>
     get (source_code (builders w1 this)) =
       get (source_code (builders w this)) @
       replicate (unat (indent (source_code (builders w this)))) CHR '' '' @
       call_builder_str R As n @ ''\<newline>'' \<and>
     line_no (source_code (builders w1 this)) = sp_line_no sp + 1"
proof (rule create_function_cases [OF assms])
  fix w1 w2
  let ?sp = "\<lparr>sp_scope = dbg_scope (builders w this), sp_name = n, sp_linkage_name = n,
         sp_file = dbg_file (builders w this),
         sp_line_no = current_line (source_code (builders w this)),
         sp_type = type_dbg R # map type_dbg As,
         sp_scope_line = current_line (source_code (builders w this)),
         sp_flags = [FlagPrototyped], sp_spflags = [SPFlagDefinition, SPFlagOptimized]\<rparr>"
  assume "fb (map (\<lambda>Idx. \<lparr>v_value = Argument (length (module_functions (module (builders w this)))) Idx,
                       v_name = ''arg'' @ to_string Idx\<rparr>) [0..<length As]) w1 = Inr w2"
    and "subprograms (dbg_builder (builders w1 this)) =
       subprograms (dbg_builder (builders w this)) @ [?sp]"
    and "fn_subprogram (module_functions (module (builders w1 this)) !
        length (module_functions (module (builders w this)))) =
       Some (DISubprogram (length (subprograms (dbg_builder (builders w this)))))"
    and "r = Function_ref n (length (module_functions (module (builders w this))))"
    and "source_code (builders w1 this) =
       enter_scope (snd (add_line (call_builder_str R As n) (source_code (builders w this))))"
  then show ?thesis
    by (intro exI [of _ w1] exI [of _ w2] exI [of _ ?sp] conjI)
       (simp_all add: current_line_def add_line_def enter_scope_def get_def)
qed

text \<open>
  The same at a concrete construction with one argument: the builder already holds one
  line, so the declaration is line 2 of the listing and 2 is the subprogram's line.
\<close>

theorem subprogram_line_is_declaration_line_witness:
  "\<exists>r w'. create_function 0 Int32 [Int32] ''second'' (\<lambda>args. Inr)
       (fresh_world\<lparr>builders := (builders fresh_world)
          (0 := fresh_builder\<lparr>source_code := snd (add_line ''first'' source_code_generator_init)\<rparr>)\<rparr>) =
       Inr (r, w') \<and>
     map sp_line_no (subprograms (dbg_builder (builders w' 0))) = [2] \<and>
     get (source_code (builders w' 0)) = ''first\<newline>i32 second(i32 arg0) {\<newline>}\<newline>''"
proof -
  let ?w = "fresh_world\<lparr>builders := (builders fresh_world)
          (0 := fresh_builder\<lparr>source_code := snd (add_line ''first'' source_code_generator_init)\<rparr>)\<rparr>"
  have e: "\<exists>r w'. create_function 0 Int32 [Int32] ''second'' (\<lambda>args. Inr) ?w = Inr (r, w') \<and>
     map sp_line_no (subprograms (dbg_builder (builders w' 0))) = [2] \<and>
     get (source_code (builders w' 0)) = ''first\<newline>i32 second(i32 arg0) {\<newline>}\<newline>''"
    by (simp add: run_defs)
  then obtain r w' where a: "create_function 0 Int32 [Int32] ''second'' (\<lambda>args. Inr) ?w = Inr (r, w')"
    by blast
  from subprogram_line_is_declaration_line [OF a] e show ?thesis by blast
qed

text \<open>
  C3. The valued return, called with a context, always returns. The builder's generator
  afterwards is the one \<^verbatim>\<open>add_line\<close> gives for the text \<^verbatim>\<open>return <display-name>;\<close>; the IR
  builder's current debug location is that call's line number, column 1, in the builder's
  current debug scope; and exactly one instruction has been emitted, the return of the
  value's handle, carrying that same location. So the location was set after the line
  number was obtained and before the instruction was created, and the instruction's line
  is the line of its text.
\<close>

theorem return_v_debug_location:
  assumes "current_builder w = Some p"
  shows "\<exists>w'. return_v v w = Inr w' \<and>
     source_code (builders w' p) =
       snd (add_line (''return '' @ v_name v @ '';'') (source_code (builders w p))) \<and>
     current_debug_location (ir_builder (builders w' p)) =
       Some (DebugLoc (fst (add_line (''return '' @ v_name v @ '';'') (source_code (builders w p))))
               1 (dbg_scope (builders w p))) \<and>
     module_instructions (module (builders w' p)) =
       module_instructions (module (builders w p)) @
       [\<lparr>instr_op = Ret (v_value v), instr_parent = insert_point (ir_builder (builders w p)),
         instr_dbg =
           Some (DebugLoc (fst (add_line (''return '' @ v_name v @ '';'') (source_code (builders w p))))
                   1 (dbg_scope (builders w p)))\<rparr>]"
  using assms
  by (simp add: return_v_def Let_def SetCurrentDebugLocation_def CreateRet_def detail_eval_def
      del: append.simps)

text \<open>
  The same at a concrete call: on a fresh builder the text is line 1.
\<close>

theorem return_v_debug_location_witness:
  "current_builder (fresh_world\<lparr>current_builder := Some 0\<rparr>) = Some 0 \<and>
   (\<exists>w'. return_v \<lparr>v_value = Argument 0 0, v_name = ''arg0''\<rparr>
            (fresh_world\<lparr>current_builder := Some 0\<rparr>) = Inr w' \<and>
      get (source_code (builders w' 0)) = ''return arg0;\<newline>'' \<and>
      current_debug_location (ir_builder (builders w' 0)) = Some (DebugLoc 1 1 (DIFile 0)) \<and>
      map instr_dbg (module_instructions (module (builders w' 0))) = [Some (DebugLoc 1 1 (DIFile 0))])"
proof -
  have h: "current_builder (fresh_world\<lparr>current_builder := Some 0\<rparr>) = Some 0"
    by (simp add: fresh_world_def)
  from return_v_debug_location [OF h, of "\<lparr>v_value = Argument 0 0, v_name = ''arg0''\<rparr>"]
  show ?thesis
    by (auto simp add: fresh_world_def fresh_builder_def source_code_generator_init_def
        add_line_def get_def)
qed

text \<open>
  C4, as amended. On a generator as initialised, for every \<open>k\<close> with \<open>1 \<le> k < 2\<^sup>3\<^sup>2\<close>, the
  \<open>k\<close>-th call of \<^verbatim>\<open>add_line\<close> returns exactly \<open>k\<close>, whatever calls of \<^verbatim>\<open>enter_scope\<close> and
  \<^verbatim>\<open>leave_scope\<close> come between, and no earlier call has returned that number.
\<close>

theorem add_line_numbers:
  assumes "1 \<le> k" and "k \<le> length (returned cs source_code_generator_init)" and "k < 2 ^ 32"
  shows "unat (returned cs source_code_generator_init ! (k - 1)) = k \<and>
     (\<forall>j. 1 \<le> j \<and> j < k \<longrightarrow>
        returned cs source_code_generator_init ! (j - 1) \<noteq>
        returned cs source_code_generator_init ! (k - 1))"
proof -
  have nth: "returned cs source_code_generator_init ! (i - 1) = of_nat i"
    if "1 \<le> i" "i \<le> k" for i
  proof -
    from that assms(2) have "i - 1 < length (returned cs source_code_generator_init)" by simp
    from returned_nth [OF this] that(1) show ?thesis
      by (simp add: source_code_generator_init_def)
  qed
  have u: "unat (of_nat i :: 32 word) = i" if "i \<le> k" for i
    using that assms(3) by (simp add: unat_of_nat)
  have "unat (returned cs source_code_generator_init ! (k - 1)) = k"
    using nth [of k] u [of k] assms(1) by simp
  moreover have "returned cs source_code_generator_init ! (j - 1) \<noteq>
        returned cs source_code_generator_init ! (k - 1)" if "1 \<le> j" "j < k" for j
  proof
    assume "returned cs source_code_generator_init ! (j - 1) =
            returned cs source_code_generator_init ! (k - 1)"
    with nth [of j] nth [of k] that assms(1) have "(of_nat j :: 32 word) = of_nat k" by simp
    then have "unat (of_nat j :: 32 word) = unat (of_nat k :: 32 word)" by simp
    with u [of j] u [of k] that show False by simp
  qed
  ultimately show ?thesis by blast
qed

text \<open>
  A run of five calls, three of them \<^verbatim>\<open>add_line\<close>: the third returns 3, which differs
  from what the first returned.
\<close>

theorem add_line_numbers_witness:
  "(1::nat) \<le> 3 \<and>
   3 \<le> length (returned [Add_line ''a'', Enter_scope, Add_line ''b'', Leave_scope, Add_line ''c'']
                 source_code_generator_init) \<and>
   (3::nat) < 2 ^ 32 \<and>
   unat (returned [Add_line ''a'', Enter_scope, Add_line ''b'', Leave_scope, Add_line ''c'']
           source_code_generator_init ! (3 - 1)) = 3 \<and>
   returned [Add_line ''a'', Enter_scope, Add_line ''b'', Leave_scope, Add_line ''c'']
     source_code_generator_init ! (1 - 1) \<noteq>
   returned [Add_line ''a'', Enter_scope, Add_line ''b'', Leave_scope, Add_line ''c'']
     source_code_generator_init ! (3 - 1)"
proof -
  let ?cs = "[Add_line ''a'', Enter_scope, Add_line ''b'', Leave_scope, Add_line ''c'']"
  have h1: "(1::nat) \<le> 3" by simp
  have h2: "3 \<le> length (returned ?cs source_code_generator_init)" by simp
  have h3: "(3::nat) < 2 ^ 32" by simp
  have j: "(1::nat) \<le> 1 \<and> (1::nat) < 3" by simp
  from add_line_numbers [OF h1 h2 h3] j h1 h2 h3 show ?thesis by blast
qed

text \<open>
  C4 as stated fails at \<open>k = 2\<^sup>3\<^sup>2\<close>: the counter is an \<^verbatim>\<open>unsigned\<close>, and the \<open>2\<^sup>3\<^sup>2\<close>-th call
  of \<^verbatim>\<open>add_line\<close> returns 0.
\<close>

theorem add_line_numbers_counterexample:
  "length (returned (replicate (2 ^ 32) (Add_line [])) source_code_generator_init) = 2 ^ 32 \<and>
   unat (returned (replicate (2 ^ 32) (Add_line [])) source_code_generator_init ! (2 ^ 32 - 1)) = 0"
proof -
  have l: "length (returned (replicate (2 ^ 32) (Add_line [])) source_code_generator_init) = 2 ^ 32"
    by (rule length_returned_replicate)
  have "(2::nat) ^ 32 - 1 < 2 ^ 32" by simp
  then have "(2::nat) ^ 32 - 1 < length (returned (replicate (2 ^ 32) (Add_line [])) source_code_generator_init)"
    by (simp only: l)
  from returned_nth [OF this]
  have "returned (replicate (2 ^ 32) (Add_line [])) source_code_generator_init ! (2 ^ 32 - 1) =
        line_no source_code_generator_init + of_nat (2 ^ 32 - 1)" .
  also have "\<dots> = (0 :: 32 word)"
    by (simp add: source_code_generator_init_def)
  finally have "unat (returned (replicate (2 ^ 32) (Add_line [])) source_code_generator_init ! (2 ^ 32 - 1)) = unat (0 :: 32 word)"
    by (rule arg_cong)
  with l show ?thesis by (simp only: unat_0 simp_thms)
qed

text \<open>
  C5. Every function construction that returns has run the body callback once, with the
  parameter values labelled \<^verbatim>\<open>arg0\<close>, \<^verbatim>\<open>arg1\<close>, \<open>\<dots>\<close> by position. The generator the callback
  starts from is the generator before the construction after exactly one \<^verbatim>\<open>add_line\<close>, of
  the declaration line, and one \<^verbatim>\<open>enter_scope\<close>; the generator after the construction is
  the one the callback left after one \<^verbatim>\<open>leave_scope\<close> and exactly one \<^verbatim>\<open>add_line\<close>, of the
  closing brace. The text the code builds is the declaration line in the specification's
  form, with the arguments joined by \<^verbatim>\<open>", "\<close>, and with empty parentheses for no arguments.
\<close>

theorem declaration_and_closing_line:
  assumes "create_function this R As f fb w = Inr (r, w')"
  shows "call_builder_str R As f = declaration_line R f As \<and>
     declaration_line R f [] = type_name R @ '' '' @ f @ ''() {'' \<and>
     (\<exists>w1 w2.
        fb (map (\<lambda>i. \<lparr>v_value = Argument (length (module_functions (module (builders w this)))) i,
                         v_name = ''arg'' @ to_string i\<rparr>) [0..<length As]) w1 = Inr w2 \<and>
        source_code (builders w1 this) =
          enter_scope (snd (add_line (declaration_line R f As) (source_code (builders w this)))) \<and>
        source_code (builders w' this) =
          snd (add_line ''}'' (leave_scope (source_code (builders w2 this)))))"
proof (intro conjI)
  show "call_builder_str R As f = declaration_line R f As"
    by (rule call_builder_str_eq)
  show "declaration_line R f [] = type_name R @ '' '' @ f @ ''() {''"
    by (simp add: declaration_line_def)
  show "\<exists>w1 w2.
        fb (map (\<lambda>i. \<lparr>v_value = Argument (length (module_functions (module (builders w this)))) i,
                         v_name = ''arg'' @ to_string i\<rparr>) [0..<length As]) w1 = Inr w2 \<and>
        source_code (builders w1 this) =
          enter_scope (snd (add_line (declaration_line R f As) (source_code (builders w this)))) \<and>
        source_code (builders w' this) =
          snd (add_line ''}'' (leave_scope (source_code (builders w2 this))))"
  proof (rule create_function_cases [OF assms])
    fix w1 w2
    assume "fb (map (\<lambda>Idx. \<lparr>v_value = Argument (length (module_functions (module (builders w this)))) Idx,
                       v_name = ''arg'' @ to_string Idx\<rparr>) [0..<length As]) w1 = Inr w2"
      and "source_code (builders w1 this) =
         enter_scope (snd (add_line (call_builder_str R As f) (source_code (builders w this))))"
      and "source_code (builders w' this) =
         snd (add_line ''}'' (leave_scope (source_code (builders w2 this))))"
    then show ?thesis
      by (intro exI [of _ w1] exI [of _ w2] conjI) (simp_all only: call_builder_str_eq)
  qed
qed

text \<open>
  The same at a concrete construction, \<^verbatim>\<open>void noop()\<close> with an empty body, and the
  declaration line of \<^verbatim>\<open>i32 add(i32, i32)\<close>.
\<close>

theorem declaration_and_closing_line_witness:
  "\<exists>r w'. create_function 0 Void [] ''noop'' (\<lambda>args. Inr) fresh_world = Inr (r, w') \<and>
     get (source_code (builders w' 0)) = ''void noop() {\<newline>}\<newline>'' \<and>
     declaration_line Int32 ''add'' [Int32, Int32] = ''i32 add(i32 arg0, i32 arg1) {'' \<and>
     call_builder_str Int32 [Int32, Int32] ''add'' = ''i32 add(i32 arg0, i32 arg1) {''"
proof -
  have e: "\<exists>r w'. create_function 0 Void [] ''noop'' (\<lambda>args. Inr) fresh_world = Inr (r, w') \<and>
     get (source_code (builders w' 0)) = ''void noop() {\<newline>}\<newline>''"
    by (simp add: run_defs)
  then obtain r w' where a: "create_function 0 Void [] ''noop'' (\<lambda>args. Inr) fresh_world = Inr (r, w')"
    by blast
  have d: "declaration_line Int32 ''add'' [Int32, Int32] = ''i32 add(i32 arg0, i32 arg1) {''"
    by (simp add: declaration_line_def to_string.simps upt_rec)
  from declaration_and_closing_line [OF a, of ]
  have "call_builder_str Void [] ''noop'' = declaration_line Void ''noop'' []" by blast
  with e d show ?thesis
    by (simp add: call_builder_str_def to_string.simps upt_rec)
qed

text \<open>
  C6. A call of \<open>create_function\<close> on a builder while the thread's context is another
  builder stops at the assertion. A call that returns had a context that was null or the
  builder itself, has run the body callback on a world whose context is the builder, and
  leaves the context as it was before the call.
\<close>

theorem create_function_context:
  "(current_builder w \<noteq> None \<and> current_builder w \<noteq> Some this \<longrightarrow>
      create_function this R As n fb w = Inl AssertionFailed) \<and>
   (create_function this R As n fb w = Inr (r, w') \<longrightarrow>
      (current_builder w = None \<or> current_builder w = Some this) \<and>
      current_builder w' = current_builder w \<and>
      (\<exists>w1 w2. current_builder w1 = Some this \<and>
         fb (map (\<lambda>Idx. \<lparr>v_value = Argument (length (module_functions (module (builders w this)))) Idx,
                            v_name = ''arg'' @ to_string Idx\<rparr>) [0..<length As]) w1 = Inr w2))"
proof (intro conjI impI)
  assume "current_builder w \<noteq> None \<and> current_builder w \<noteq> Some this"
  then show "create_function this R As n fb w = Inl AssertionFailed"
    by (auto simp: create_function_def)
next
  assume a: "create_function this R As n fb w = Inr (r, w')"
  show "current_builder w = None \<or> current_builder w = Some this"
    by (rule create_function_cases [OF a]) assumption
  show "current_builder w' = current_builder w"
    by (rule create_function_cases [OF a]) assumption
  show "\<exists>w1 w2. current_builder w1 = Some this \<and>
         fb (map (\<lambda>Idx. \<lparr>v_value = Argument (length (module_functions (module (builders w this)))) Idx,
                            v_name = ''arg'' @ to_string Idx\<rparr>) [0..<length As]) w1 = Inr w2"
  proof (rule create_function_cases [OF a])
    fix w1 w2
    assume "fb (map (\<lambda>Idx. \<lparr>v_value = Argument (length (module_functions (module (builders w this)))) Idx,
                            v_name = ''arg'' @ to_string Idx\<rparr>) [0..<length As]) w1 = Inr w2"
      and "current_builder w1 = Some this"
    then show ?thesis by (intro exI [of _ w1] exI [of _ w2] conjI)
  qed
qed

text \<open>
  At concrete calls: with builder 1 as the context, a construction on builder 0 fails the
  assertion; and a construction on builder 0 whose body constructs a second function on
  the same builder returns, with the context null again.
\<close>

theorem create_function_context_witness:
  "current_builder (fresh_world\<lparr>current_builder := Some 1\<rparr>) \<noteq> None \<and>
   current_builder (fresh_world\<lparr>current_builder := Some 1\<rparr>) \<noteq> Some 0 \<and>
   create_function 0 Void [] ''f'' (\<lambda>args. Inr) (fresh_world\<lparr>current_builder := Some 1\<rparr>) =
     Inl AssertionFailed \<and>
   (\<exists>r w'. create_function 0 Void [] ''outer''
              (\<lambda>args w. case create_function 0 Void [] ''inner'' (\<lambda>args. Inr) w of
                            Inl e \<Rightarrow> Inl e | Inr (r, w') \<Rightarrow> Inr w')
              fresh_world = Inr (r, w') \<and>
      current_builder w' = current_builder fresh_world)"
proof -
  let ?nested = "\<lambda>(args :: value_t list) w. case create_function 0 Void [] ''inner'' (\<lambda>args. Inr) w of
                            Inl e \<Rightarrow> Inl e | Inr (r, w') \<Rightarrow> Inr w'"
  have h: "current_builder (fresh_world\<lparr>current_builder := Some 1\<rparr>) \<noteq> None \<and>
           current_builder (fresh_world\<lparr>current_builder := Some 1\<rparr>) \<noteq> Some 0"
    by (simp add: fresh_world_def)
  have "\<exists>r w'. create_function 0 Void [] ''outer'' ?nested fresh_world = Inr (r, w')"
    by (simp add: run_defs)
  then obtain r w' where a: "create_function 0 Void [] ''outer'' ?nested fresh_world = Inr (r, w')"
    by blast
  from h a
    create_function_context [of "fresh_world\<lparr>current_builder := Some 1\<rparr>" 0 Void "[]" "''f''" "\<lambda>args. Inr"]
    create_function_context [of fresh_world 0 Void "[]" "''outer''" ?nested r w']
  show ?thesis by blast
qed

text \<open>
  C7, as amended. For every call of \<open>create_function\<close> that returns, the builder's debug
  scope after the call is its debug scope before the call, whatever world the body
  callback returned. The callback itself ran with the new subprogram as the debug scope,
  and that subprogram's parent is the scope that was saved.
\<close>

theorem create_function_restores_dbg_scope:
  assumes "create_function this R As n fb w = Inr (r, w')"
  shows "dbg_scope (builders w' this) = dbg_scope (builders w this) \<and>
     (\<exists>w1 w2.
        fb (map (\<lambda>Idx. \<lparr>v_value = Argument (length (module_functions (module (builders w this)))) Idx,
                           v_name = ''arg'' @ to_string Idx\<rparr>) [0..<length As]) w1 = Inr w2 \<and>
        dbg_scope (builders w1 this) =
          DISubprogram (length (subprograms (dbg_builder (builders w this)))) \<and>
        sp_scope (last (subprograms (dbg_builder (builders w1 this)))) = dbg_scope (builders w this))"
proof (rule create_function_cases [OF assms])
  fix w1 w2
  assume "fb (map (\<lambda>Idx. \<lparr>v_value = Argument (length (module_functions (module (builders w this)))) Idx,
                       v_name = ''arg'' @ to_string Idx\<rparr>) [0..<length As]) w1 = Inr w2"
    and "dbg_scope (builders w1 this) = DISubprogram (length (subprograms (dbg_builder (builders w this))))"
    and "subprograms (dbg_builder (builders w1 this)) =
       subprograms (dbg_builder (builders w this)) @
       [\<lparr>sp_scope = dbg_scope (builders w this), sp_name = n, sp_linkage_name = n,
         sp_file = dbg_file (builders w this),
         sp_line_no = current_line (source_code (builders w this)),
         sp_type = type_dbg R # map type_dbg As,
         sp_scope_line = current_line (source_code (builders w this)),
         sp_flags = [FlagPrototyped], sp_spflags = [SPFlagDefinition, SPFlagOptimized]\<rparr>]"
    and "dbg_scope (builders w' this) = dbg_scope (builders w this)"
  then show ?thesis
    by (intro conjI exI [of _ w1] exI [of _ w2]) simp_all
qed

text \<open>
  At a concrete call whose body overwrites the builder's debug scope: the scope after the
  construction is the file again.
\<close>

theorem create_function_restores_dbg_scope_witness:
  "\<exists>r w'. create_function 0 Int32 [Int32] ''f''
        (\<lambda>args w. Inr (w\<lparr>builders := (builders w)(0 := (builders w 0)\<lparr>dbg_scope := DIFile 7\<rparr>)\<rparr>))
        fresh_world = Inr (r, w') \<and>
     dbg_scope (builders w' 0) = DIFile 0"
proof -
  let ?fb = "\<lambda>(args :: value_t list) w. Inr (w\<lparr>builders := (builders w)(0 := (builders w 0)\<lparr>dbg_scope := DIFile 7\<rparr>)\<rparr>) :: error + world"
  have "\<exists>r w'. create_function 0 Int32 [Int32] ''f'' ?fb fresh_world = Inr (r, w')"
    by (simp add: run_defs)
  then obtain r w' where a: "create_function 0 Int32 [Int32] ''f'' ?fb fresh_world = Inr (r, w')"
    by blast
  from create_function_restores_dbg_scope [OF a]
  have "dbg_scope (builders w' 0) = dbg_scope (builders fresh_world 0)" by blast
  with a show ?thesis by (simp add: fresh_world_def fresh_builder_def)
qed

text \<open>
  C7 as stated fails for a body callback that throws: the assignment that restores the
  scope is not reached, and the caller finds the new subprogram still installed as the
  builder's debug scope, where the file was before the call.
\<close>

theorem create_function_restores_dbg_scope_counterexample:
  "is_BodyException (projl (create_function 0 Void [] ''f'' throwing_body fresh_world)) \<and>
   isl (create_function 0 Void [] ''f'' throwing_body fresh_world) \<and>
   dbg_scope (builders (thrown_in (projl (create_function 0 Void [] ''f'' throwing_body fresh_world))) 0) =
     DISubprogram 0 \<and>
   dbg_scope (builders fresh_world 0) = DIFile 0"
  by (simp add: run_defs)

text \<open>
  C9, as amended. In a balanced sequence of calls on a generator as initialised whose
  nesting stays below \<open>2\<^sup>3\<^sup>0\<close> open scopes, at every call the net number of open scopes so
  far is not negative and the indentation is 4 times that number; a line appended there is
  prefixed by that many spaces; \<^verbatim>\<open>enter_scope\<close> adds exactly 4 columns; and \<^verbatim>\<open>leave_scope\<close>
  finds at least 4 columns and takes exactly 4 away, so the counter never wraps below 0.
\<close>

theorem balanced_indentation:
  assumes "balanced 0 (pre @ c # post)" and "max_open 0 (pre @ c # post) < 2 ^ 30"
  shows "0 \<le> net_open pre \<and>
     int (unat (indent (run pre source_code_generator_init))) = 4 * net_open pre \<and>
     (case c of
        Add_line t \<Rightarrow>
          get (run (pre @ [c]) source_code_generator_init) =
            get (run pre source_code_generator_init) @
            replicate (nat (4 * net_open pre)) CHR '' '' @ t @ ''\<newline>''
      | Enter_scope \<Rightarrow>
          unat (indent (run (pre @ [c]) source_code_generator_init)) =
            unat (indent (run pre source_code_generator_init)) + 4
      | Leave_scope \<Rightarrow>
          4 \<le> unat (indent (run pre source_code_generator_init)) \<and>
          unat (indent (run (pre @ [c]) source_code_generator_init)) =
            unat (indent (run pre source_code_generator_init)) - 4)"
proof -
  let ?g = source_code_generator_init
  from balanced_indent [OF assms]
  have p: "0 \<le> net_open pre" "int (unat (indent (run pre ?g))) = 4 * net_open pre"
    by simp_all
  have "balanced 0 ((pre @ [c]) @ post)" "max_open 0 ((pre @ [c]) @ post) < 2 ^ 30"
    using assms by simp_all
  from balanced_indent [OF this]
  have q: "0 \<le> net_open (pre @ [c])"
    "int (unat (indent (run (pre @ [c]) ?g))) = 4 * net_open (pre @ [c])"
    by simp_all
  have "case c of
        Add_line t \<Rightarrow>
          get (run (pre @ [c]) ?g) =
            get (run pre ?g) @ replicate (nat (4 * net_open pre)) CHR '' '' @ t @ ''\<newline>''
      | Enter_scope \<Rightarrow> unat (indent (run (pre @ [c]) ?g)) = unat (indent (run pre ?g)) + 4
      | Leave_scope \<Rightarrow>
          4 \<le> unat (indent (run pre ?g)) \<and>
          unat (indent (run (pre @ [c]) ?g)) = unat (indent (run pre ?g)) - 4"
  proof (cases c)
    case (Add_line t)
    from p(2) have "nat (int (unat (indent (run pre ?g)))) = nat (4 * net_open pre)"
      by (simp only:)
    then have "unat (indent (run pre ?g)) = nat (4 * net_open pre)"
      by (simp only: nat_int)
    with Add_line show ?thesis
      by (simp add: run_append get_def add_line_def)
  next
    case Enter_scope
    then have "net_open (pre @ [c]) = net_open pre + 1"
      by (simp add: net_open_append)
    with p(2) q(2)
    have "unat (indent (run (pre @ [c]) ?g)) = unat (indent (run pre ?g)) + 4"
      by linarith
    with Enter_scope show ?thesis by (simp only: generator_call.case)
  next
    case Leave_scope
    then have "net_open (pre @ [c]) = net_open pre - 1"
      by (simp add: net_open_append)
    with p(2) q
    have "4 \<le> unat (indent (run pre ?g)) \<and>
          unat (indent (run (pre @ [c]) ?g)) = unat (indent (run pre ?g)) - 4"
      by linarith
    with Leave_scope show ?thesis by (simp only: generator_call.case)
  qed
  with p show ?thesis by blast
qed

text \<open>
  A balanced run: two scopes entered, one left, and a line appended with one scope open
  is indented by 4 columns.
\<close>

theorem balanced_indentation_witness:
  "balanced 0 ([Enter_scope, Enter_scope, Leave_scope] @ Add_line ''x'' # [Leave_scope]) \<and>
   max_open 0 ([Enter_scope, Enter_scope, Leave_scope] @ Add_line ''x'' # [Leave_scope]) < 2 ^ 30 \<and>
   net_open [Enter_scope, Enter_scope, Leave_scope] = 1 \<and>
   get (run ([Enter_scope, Enter_scope, Leave_scope] @ [Add_line ''x'']) source_code_generator_init) =
     ''    x\<newline>''"
proof -
  let ?pre = "[Enter_scope, Enter_scope, Leave_scope]"
  have h1: "balanced 0 (?pre @ Add_line ''x'' # [Leave_scope])" by simp
  have h2: "max_open 0 (?pre @ Add_line ''x'' # [Leave_scope]) < 2 ^ 30" by simp
  have n: "net_open ?pre = 1" by simp
  have g: "get (run ?pre source_code_generator_init) = []"
    by (simp add: get_def source_code_generator_init_def enter_scope_def leave_scope_def)
  from balanced_indentation [OF h1 h2]
  have "get (run (?pre @ [Add_line ''x'']) source_code_generator_init) =
        get (run ?pre source_code_generator_init) @
        replicate (nat (4 * net_open ?pre)) CHR '' '' @ ''x'' @ ''\<newline>''"
    by simp
  with h1 h2 n g show ?thesis
    by (simp only: n g) (simp add: replicate_4)
qed

text \<open>
  C9 as stated fails for a balanced sequence that nests \<open>2\<^sup>3\<^sup>0\<close> scopes: the \<^verbatim>\<open>unsigned\<close>
  indentation has wrapped to 0, and the line appended with \<open>2\<^sup>3\<^sup>0\<close> scopes open has no
  indentation at all.
\<close>

theorem balanced_indentation_counterexample:
  "balanced 0 (replicate (2 ^ 30) Enter_scope @ Add_line ''x'' # replicate (2 ^ 30) Leave_scope) \<and>
   net_open (replicate (2 ^ 30) Enter_scope) = 2 ^ 30 \<and>
   unat (indent (run (replicate (2 ^ 30) Enter_scope) source_code_generator_init)) = 0 \<and>
   get (run (replicate (2 ^ 30) Enter_scope @ [Add_line ''x'']) source_code_generator_init) =
     ''x\<newline>''"
proof -
  let ?n = "(2::nat) ^ 30"
  have b: "balanced 0 (replicate ?n Enter_scope @ Add_line ''x'' # replicate ?n Leave_scope)"
    using balanced_replicate_leave [of 0 ?n]
    by (simp only: balanced_replicate_enter balanced.simps)
  have n: "net_open (replicate ?n Enter_scope) = 2 ^ 30"
    by (simp only: net_open_replicate_enter) simp
  have w: "(4 * of_nat ?n :: 32 word) = 0" by simp
  have r: "run (replicate ?n Enter_scope) source_code_generator_init = source_code_generator_init"
    by (simp only: run_replicate_enter w) (simp add: source_code_generator_init_def)
  have i: "unat (indent (run (replicate ?n Enter_scope) source_code_generator_init)) = 0"
    by (simp only: r) (simp add: source_code_generator_init_def)
  have g: "get (run (replicate ?n Enter_scope @ [Add_line ''x'']) source_code_generator_init) =
     ''x\<newline>''"
    by (simp only: run_append r) (simp add: get_def add_line_def source_code_generator_init_def)
  from b n i g show ?thesis by (intro conjI)
qed

text \<open>
  C10. If \<^verbatim>\<open>leave_scope\<close> is called on a generator whose indentation is 0, the unsigned
  32-bit counter is not checked: it wraps modulo \<open>2\<^sup>3\<^sup>2\<close> to 4294967292. The call is a
  total function of the generator, with no error result and no balance detection; on the
  generator as initialised it gives the same value.
\<close>

theorem leave_scope_wraps:
  "indent (leave_scope (g\<lparr>indent := 0\<rparr>)) = 4294967292 \<and>
   unat (indent (leave_scope (g\<lparr>indent := 0\<rparr>))) = 2 ^ 32 - 4 \<and>
   unat (indent (leave_scope source_code_generator_init)) = 4294967292"
  by (simp add: leave_scope_def source_code_generator_init_def)

end
